theory Spec2Isabelle
  imports Main
begin

section \<open>Pointers, pointees and the two policies\<close>

text \<open>
  The header \<^verbatim>\<open>value_ptr.hpp\<close> defines one class template,
  \<^verbatim>\<open>value_ptr <T, ClonerT, DeleterT>\<close>, whose only data member is
  \<^verbatim>\<open>std::tuple <T*, ClonerT, DeleterT> m_\<close>.

  A raw pointer \<^verbatim>\<open>T*\<close> is an address; address \<open>0\<close> is the null pointer. The
  free store maps the addresses of live pointees to their values. A policy object is the
  function its call operator computes on the free store: a cloner may throw, and then
  hands back the error together with the free store as it left it; a deleter returns
  the free store after the destruction (as for \<^verbatim>\<open>std::unique_ptr\<close>, a deleter that
  throws is outside the contract: the destructor that calls it is implicitly noexcept).
\<close>

type_synonym pointer = nat

definition nullptr :: pointer where
  "nullptr = 0"

type_synonym 'a heap = "pointer \<Rightarrow> 'a option"

datatype error = Thrown string

type_synonym 'a cloner = "pointer \<Rightarrow> 'a heap \<Rightarrow> (error + pointer) \<times> 'a heap"

type_synonym 'a deleter = "pointer \<Rightarrow> 'a heap \<Rightarrow> 'a heap"

text \<open>
  What the class is instantiated with: the values \<^verbatim>\<open>cloner_type()\<close> and
  \<^verbatim>\<open>deleter_type()\<close> of the default-constructed policies, and the state in which the
  move assignment of each policy type leaves its source (the identity for the empty
  function objects \<^verbatim>\<open>default_clone <T>\<close> and \<^verbatim>\<open>std::default_delete <T>\<close>).
\<close>

record 'a policy_types =
  cloner_type :: "'a cloner"
  deleter_type :: "'a deleter"
  moved_cloner :: "'a cloner \<Rightarrow> 'a cloner"
  moved_deleter :: "'a deleter \<Rightarrow> 'a deleter"

text \<open>
  The member \<^verbatim>\<open>m_\<close>: \<open>m_ptr\<close> is \<^verbatim>\<open>std::get <0> (m_)\<close>, \<open>m_cloner\<close> is
  \<^verbatim>\<open>std::get <1> (m_)\<close> and \<open>m_deleter\<close> is \<^verbatim>\<open>std::get <2> (m_)\<close>.
\<close>

record 'a value_ptr =
  m_ptr :: pointer
  m_cloner :: "'a cloner"
  m_deleter :: "'a deleter"

text \<open>
  The state: the storage of the \<^verbatim>\<open>value_ptr\<close> objects, by the address of each
  (so that \<^verbatim>\<open>w = std::move(v)\<close> can be asked with \<^verbatim>\<open>&w == &v\<close>), the free store,
  and the log of the policy invocations so far, oldest first, each with the pointer it
  was called on.
\<close>

type_synonym ref = nat

datatype event = cloner_call pointer | deleter_call pointer

record 'a state =
  objs :: "ref \<Rightarrow> 'a value_ptr"
  heap :: "'a heap"
  trace :: "event list"

definition invoke_cloner :: "'a cloner \<Rightarrow> pointer \<Rightarrow> 'a state \<Rightarrow> (error + pointer) \<times> 'a state" where
  "invoke_cloner c p s =
     (case c p (heap s) of
        (r, h') \<Rightarrow> (r, s\<lparr>heap := h', trace := trace s @ [cloner_call p]\<rparr>))"

definition invoke_deleter :: "'a deleter \<Rightarrow> pointer \<Rightarrow> 'a state \<Rightarrow> 'a state" where
  "invoke_deleter d p s = s\<lparr>heap := d p (heap s), trace := trace s @ [deleter_call p]\<rparr>"

section \<open>The member functions\<close>

subsection \<open>Accessors\<close>

definition get :: "ref \<Rightarrow> 'a state \<Rightarrow> pointer" where
  "get this s = m_ptr (objs s this)"

definition get_deleter :: "ref \<Rightarrow> 'a state \<Rightarrow> 'a deleter" where
  "get_deleter this s = m_deleter (objs s this)"

definition get_cloner :: "ref \<Rightarrow> 'a state \<Rightarrow> 'a cloner" where
  "get_cloner this s = m_cloner (objs s this)"

text \<open>Assignments through the references the accessors return.\<close>

definition set_ptr :: "ref \<Rightarrow> pointer \<Rightarrow> 'a state \<Rightarrow> 'a state" where
  "set_ptr this p s = s\<lparr>objs := (objs s)(this := (objs s this)\<lparr>m_ptr := p\<rparr>)\<rparr>"

definition set_deleter :: "ref \<Rightarrow> 'a deleter \<Rightarrow> 'a state \<Rightarrow> 'a state" where
  "set_deleter this d s = s\<lparr>objs := (objs s)(this := (objs s this)\<lparr>m_deleter := d\<rparr>)\<rparr>"

definition set_cloner :: "ref \<Rightarrow> 'a cloner \<Rightarrow> 'a state \<Rightarrow> 'a state" where
  "set_cloner this c s = s\<lparr>objs := (objs s)(this := (objs s this)\<lparr>m_cloner := c\<rparr>)\<rparr>"

text \<open>\<^verbatim>\<open>explicit operator bool() const\<close>\<close>

definition operator_bool :: "ref \<Rightarrow> 'a state \<Rightarrow> bool" where
  "operator_bool this s = (if get this s = nullptr then False else True)"

text \<open>
  \<^verbatim>\<open>operator*() const\<close> returns \<^verbatim>\<open>*get()\<close> with its assertion commented out.
  Reading through it gives the pointee's value; on an empty instance, or a pointer to
  no live object, there is nothing to read (\<open>None\<close>). \<open>store_pointee\<close> is an assignment
  through the reference it returns, \<^verbatim>\<open>*v = x\<close>.
\<close>

definition operator_star :: "ref \<Rightarrow> 'a state \<Rightarrow> 'a option" where
  "operator_star this s = (if get this s = nullptr then None else heap s (get this s))"

definition store_pointee :: "ref \<Rightarrow> 'a \<Rightarrow> 'a state \<Rightarrow> 'a state option" where
  "store_pointee this x s =
     (if get this s = nullptr \<or> heap s (get this s) = None then None
      else Some (s\<lparr>heap := (heap s)(get this s \<mapsto> x)\<rparr>))"

subsection \<open>clone, reset, release, destructor\<close>

definition clone :: "ref \<Rightarrow> 'a state \<Rightarrow> (error + pointer) \<times> 'a state" where
  "clone this s =
     (if operator_bool this s then invoke_cloner (get_cloner this s) (get this s) s
      else (Inr nullptr, s))"

definition reset :: "ref \<Rightarrow> pointer \<Rightarrow> 'a state \<Rightarrow> 'a state" where
  "reset this p s =
     (if p \<noteq> get this s
      then set_ptr this p (invoke_deleter (get_deleter this s) (get this s) s)
      else s)"

definition release :: "ref \<Rightarrow> 'a state \<Rightarrow> pointer \<times> 'a state" where
  "release this s = (let p = get this s in (p, set_ptr this nullptr s))"

text \<open>\<^verbatim>\<open>~value_ptr()\<close> is \<^verbatim>\<open>reset()\<close>, whose default argument is \<^verbatim>\<open>pointer()\<close>.\<close>

definition destructor :: "ref \<Rightarrow> 'a state \<Rightarrow> 'a state" where
  "destructor this s = reset this nullptr s"

subsection \<open>Constructors\<close>

text \<open>The member initialiser \<^verbatim>\<open>m_(ptr, c, d)\<close> on the storage at \<open>this\<close>.\<close>

definition init_m :: "ref \<Rightarrow> pointer \<Rightarrow> 'a cloner \<Rightarrow> 'a deleter \<Rightarrow> 'a state \<Rightarrow> 'a state" where
  "init_m this p c d s =
     s\<lparr>objs := (objs s)(this := \<lparr>m_ptr = p, m_cloner = c, m_deleter = d\<rparr>)\<rparr>"

definition value_ptr_default :: "'a policy_types \<Rightarrow> ref \<Rightarrow> 'a state \<Rightarrow> 'a state" where
  "value_ptr_default T this s = init_m this nullptr (cloner_type T) (deleter_type T) s"

definition value_ptr_nullptr :: "'a policy_types \<Rightarrow> ref \<Rightarrow> 'a state \<Rightarrow> 'a state" where
  "value_ptr_nullptr T this s = init_m this nullptr (cloner_type T) (deleter_type T) s"

definition value_ptr_ptr :: "'a policy_types \<Rightarrow> ref \<Rightarrow> pointer \<Rightarrow> 'a state \<Rightarrow> 'a state" where
  "value_ptr_ptr T this ptr s = init_m this ptr (cloner_type T) (deleter_type T) s"

definition value_ptr_ptr_deleter ::
  "'a policy_types \<Rightarrow> ref \<Rightarrow> pointer \<Rightarrow> 'a deleter \<Rightarrow> 'a state \<Rightarrow> 'a state" where
  "value_ptr_ptr_deleter T this ptr d s = init_m this ptr (cloner_type T) d s"

definition value_ptr_ptr_cloner ::
  "'a policy_types \<Rightarrow> ref \<Rightarrow> pointer \<Rightarrow> 'a cloner \<Rightarrow> 'a state \<Rightarrow> 'a state" where
  "value_ptr_ptr_cloner T this ptr c s = init_m this ptr c (deleter_type T) s"

definition value_ptr_ptr_deleter_cloner ::
  "ref \<Rightarrow> pointer \<Rightarrow> 'a deleter \<Rightarrow> 'a cloner \<Rightarrow> 'a state \<Rightarrow> 'a state" where
  "value_ptr_ptr_deleter_cloner this ptr d c s = init_m this ptr c d s"

text \<open>
  The copy constructor has no member initialiser, so \<^verbatim>\<open>m_\<close> is first
  default-constructed (a null pointer and default-constructed policies); then
  \<^verbatim>\<open>reset(v.clone()); get_deleter() = v.get_deleter(); get_cloner() = v.get_cloner();\<close>.
  When \<^verbatim>\<open>v.clone()\<close> throws the constructor is left at once: no object comes to
  life at \<open>this\<close>, no destructor of \<^verbatim>\<open>value_ptr\<close> runs, and the storage keeps the
  default-constructed members.
\<close>

definition value_ptr_copy ::
  "'a policy_types \<Rightarrow> ref \<Rightarrow> ref \<Rightarrow> 'a state \<Rightarrow> (error + unit) \<times> 'a state" where
  "value_ptr_copy T this v s =
     (let s0 = init_m this nullptr (cloner_type T) (deleter_type T) s in
      case clone v s0 of
        (Inl e, s1) \<Rightarrow> (Inl e, s1)
      | (Inr p, s1) \<Rightarrow>
          (let s2 = reset this p s1;
               s3 = set_deleter this (get_deleter v s2) s2;
               s4 = set_cloner this (get_cloner v s3) s3
           in (Inr (), s4)))"

subsection \<open>Assignment\<close>

text \<open>
  \<^verbatim>\<open>x = std::move(y)\<close> on a policy member: the destination takes the value, the
  source is left as its type's move assignment leaves it.
\<close>

definition move_deleter :: "'a policy_types \<Rightarrow> ref \<Rightarrow> ref \<Rightarrow> 'a state \<Rightarrow> 'a state" where
  "move_deleter T this v s =
     (let d = get_deleter v s in set_deleter v (moved_deleter T d) (set_deleter this d s))"

definition move_cloner :: "'a policy_types \<Rightarrow> ref \<Rightarrow> ref \<Rightarrow> 'a state \<Rightarrow> 'a state" where
  "move_cloner T this v s =
     (let c = get_cloner v s in set_cloner v (moved_cloner T c) (set_cloner this c s))"

text \<open>
  \<^verbatim>\<open>value_ptr& operator=(value_ptr&& v)\<close>. The templated overloads of the copy
  constructor and of both assignment operators, from a
  \<^verbatim>\<open>value_ptr <U, ClonerU, DeleterU>\<close>, have the same bodies as the ones embedded here.
\<close>

definition assign_move :: "'a policy_types \<Rightarrow> ref \<Rightarrow> ref \<Rightarrow> 'a state \<Rightarrow> 'a state" where
  "assign_move T this v s =
     (case release v s of
        (p, s1) \<Rightarrow>
          (let s2 = reset this p s1;
               s3 = move_deleter T this v s2;
               s4 = move_cloner T this v s3
           in s4))"

text \<open>\<^verbatim>\<open>value_ptr& operator=(value_ptr const& v)\<close>\<close>

definition assign_copy :: "ref \<Rightarrow> ref \<Rightarrow> 'a state \<Rightarrow> (error + unit) \<times> 'a state" where
  "assign_copy this v s =
     (case clone v s of
        (Inl e, s1) \<Rightarrow> (Inl e, s1)
      | (Inr p, s1) \<Rightarrow>
          (let s2 = reset this p s1;
               s3 = set_deleter this (get_deleter v s2) s2;
               s4 = set_cloner this (get_cloner v s3) s3
           in (Inr (), s4)))"

subsection \<open>The move constructor\<close>

text \<open>
  \<^verbatim>\<open>value_ptr(value_ptr&& v) noexcept { reset(); m_ = std::move(v); }\<close>

  The second statement assigns the \<^verbatim>\<open>value_ptr\<close> \<open>v\<close> to the member \<^verbatim>\<open>m_\<close>, a
  \<^verbatim>\<open>std::tuple <T*, ClonerT, DeleterT>\<close>. A tuple has no assignment from a
  \<^verbatim>\<open>value_ptr\<close> and a \<^verbatim>\<open>value_ptr\<close> converts to no tuple, so the body is
  ill-formed wherever the constructor is instantiated: no program that move-constructs
  a \<^verbatim>\<open>value_ptr\<close> compiles, and the constructor has no behaviour to embed. It has
  no definition here, and nothing below speaks about it.
\<close>

section \<open>What the policies are relied on for\<close>

text \<open>
  Modelled from the spec: \<^verbatim>\<open>cloner.hpp\<close>, which declares \<^verbatim>\<open>default_clone\<close>, is
  not among the sources verified here, and a cloner is a template parameter anyway. The
  specification takes a cloner to be "a stored behavior that produces a new,
  independently owned duplicate of a referent", which may fail, and on failure leaves
  no partial mutation and no leak. \<open>clone_duplicates\<close> says the first for a live
  pointee: a clone that returns gives a non-null address that was free, now holding an
  equal value, and touches nothing else. \<open>clone_failure_atomic\<close> says the second.
\<close>

definition clone_duplicates :: "'a cloner \<Rightarrow> bool" where
  "clone_duplicates c \<longleftrightarrow>
     (\<forall>p h x q h'. h p = Some x \<and> c p h = (Inr q, h') \<longrightarrow>
        q \<noteq> nullptr \<and> h q = None \<and> h' = h(q \<mapsto> x))"

definition clone_failure_atomic :: "'a cloner \<Rightarrow> bool" where
  "clone_failure_atomic c \<longleftrightarrow> (\<forall>p h e h'. c p h = (Inl e, h') \<longrightarrow> h' = h)"

text \<open>
  Modelled from the spec: a deleter is "a stored behavior that destroys and releases the
  resources of a referent; must accept null as a no-op". \<open>deleter_accepts_null\<close> is
  the second half; \<open>deleter_frees_only\<close> is the part of the first half the copies
  rely on: destroying the object at \<open>p\<close> leaves every other object as it was.
\<close>

definition deleter_accepts_null :: "'a deleter \<Rightarrow> bool" where
  "deleter_accepts_null d \<longleftrightarrow> (\<forall>h. d nullptr h = h)"

definition deleter_frees_only :: "'a deleter \<Rightarrow> bool" where
  "deleter_frees_only d \<longleftrightarrow> (\<forall>p h r. r \<noteq> p \<longrightarrow> d p h r = h r)"

section \<open>An instantiation to run the operations on\<close>

text \<open>
  \<^verbatim>\<open>std::default_delete <T>\<close> applies \<^verbatim>\<open>delete\<close> to the pointer; deleting a null
  pointer does nothing.
\<close>

definition default_delete :: "'a deleter" where
  "default_delete p h = (if p = nullptr then h else h(p := None))"

text \<open>
  A cloner with state: it owns one slot of storage, at address \<open>q\<close>, and copies the
  pointee into it; it throws when the slot is taken (or when there is no pointee to
  copy), leaving the free store alone.
\<close>

definition slot_clone :: "pointer \<Rightarrow> 'a cloner" where
  "slot_clone q p h =
     (case h p of
        None \<Rightarrow> (Inl (Thrown ''no pointee''), h)
      | Some x \<Rightarrow>
          if q \<noteq> nullptr \<and> h q = None then (Inr q, h(q \<mapsto> x))
          else (Inl (Thrown ''bad_alloc''), h))"

definition int_policies :: "int policy_types" where
  "int_policies =
     \<lparr>cloner_type = slot_clone 2, deleter_type = default_delete,
      moved_cloner = (\<lambda>c. c), moved_deleter = (\<lambda>d. d)\<rparr>"

text \<open>
  The free store holds two \<^verbatim>\<open>int\<close>s, 5 at address 1 and 9 at address 3; the
  storage for \<^verbatim>\<open>value_ptr\<close> objects holds empty instances everywhere.
\<close>

definition store59 :: "int state" where
  "store59 =
     \<lparr>objs = (\<lambda>r. \<lparr>m_ptr = nullptr, m_cloner = slot_clone 2, m_deleter = default_delete\<rparr>),
      heap = [1 \<mapsto> 5, 3 \<mapsto> 9], trace = []\<rparr>"

text \<open>\<^verbatim>\<open>value_ptr <int> a(p);\<close> with \<open>a\<close> at address 0 and \<open>p\<close> the address 1.\<close>

definition owner5 :: "int state" where
  "owner5 = value_ptr_ptr int_policies 0 1 store59"

text \<open>Then \<^verbatim>\<open>value_ptr <int> b(q);\<close> with \<open>b\<close> at address 1 and \<open>q\<close> the address 3.\<close>

definition two_owners :: "int state" where
  "two_owners = value_ptr_ptr int_policies 1 3 owner5"

text \<open>
  The same two with a cloner for \<open>a\<close> whose slot is the address 1 itself, which is
  taken: cloning the pointee of \<open>a\<close> throws.
\<close>

definition owner5_full :: "int state" where
  "owner5_full = value_ptr_ptr_cloner int_policies 0 1 (slot_clone 1) store59"

definition two_owners_full :: "int state" where
  "two_owners_full = value_ptr_ptr int_policies 1 3 owner5_full"

section \<open>Unfolding\<close>

lemmas accessor_defs = get_def get_deleter_def get_cloner_def set_ptr_def set_deleter_def
  set_cloner_def operator_bool_def operator_star_def

lemmas op_defs = clone_def reset_def release_def destructor_def invoke_cloner_def
  invoke_deleter_def init_m_def

lemmas example_defs = owner5_def owner5_full_def two_owners_def two_owners_full_def store59_def
  int_policies_def value_ptr_ptr_def value_ptr_ptr_cloner_def init_m_def nullptr_def
  slot_clone_def default_delete_def

section \<open>The example policies meet their contracts\<close>

lemma slot_clone_duplicates: "clone_duplicates (slot_clone q)"
  by (auto simp: clone_duplicates_def slot_clone_def split: option.splits if_splits)

lemma slot_clone_failure_atomic: "clone_failure_atomic (slot_clone q)"
  by (auto simp: clone_failure_atomic_def slot_clone_def split: option.splits if_splits)

lemma default_delete_accepts_null: "deleter_accepts_null default_delete"
  by (simp add: deleter_accepts_null_def default_delete_def)

lemma default_delete_frees_only: "deleter_frees_only default_delete"
  by (simp add: deleter_frees_only_def default_delete_def)

section \<open>clone\<close>

lemma clone_empty: "get v s = nullptr \<Longrightarrow> clone v s = (Inr nullptr, s)"
  by (simp add: clone_def operator_bool_def)

lemma clone_nonempty:
  assumes "get v s \<noteq> nullptr" and "get_cloner v s (get v s) (heap s) = (r, h')"
  shows "clone v s = (r, s\<lparr>heap := h', trace := trace s @ [cloner_call (get v s)]\<rparr>)"
  using assms by (simp add: clone_def operator_bool_def invoke_cloner_def)

lemma clone_frame:
  assumes "clone v s = (r, s1)"
  shows "objs s1 = objs s \<and>
         trace s1 = trace s @ (if get v s = nullptr then [] else [cloner_call (get v s)])"
  using assms
  by (auto simp: clone_def operator_bool_def invoke_cloner_def split: if_splits prod.splits)

lemma clone_failure_frame:
  assumes "clone v s = (Inl e, s1)" and "clone_failure_atomic (get_cloner v s)"
  shows "get v s \<noteq> nullptr \<and> heap s1 = heap s"
proof -
  from assms(1) have ne: "get v s \<noteq> nullptr"
    by (auto simp: clone_def operator_bool_def split: if_splits)
  obtain r h' where c: "get_cloner v s (get v s) (heap s) = (r, h')"
    by (cases "get_cloner v s (get v s) (heap s)")
  from clone_nonempty [OF ne c] assms(1) have "r = Inl e" and s1: "heap s1 = h'"
    by auto
  with c assms(2) have "h' = heap s"
    unfolding clone_failure_atomic_def by blast
  with ne s1 show ?thesis by simp
qed

text \<open>
  C5. For every non-empty instance \<open>v\<close> that owns a live pointee of value \<open>x\<close> and
  whose cloner duplicates, a call \<^verbatim>\<open>v.clone()\<close> that returns gives a pointer \<open>q\<close>
  distinct from \<^verbatim>\<open>v.get()\<close> whose pointee has the value \<open>x\<close>, and \<open>v\<close> is unchanged:
  no instance changed, \<open>v\<close> holds the same pointer, cloner and deleter, and its pointee
  still has the value \<open>x\<close>. For every empty instance \<^verbatim>\<open>clone()\<close> returns null and the
  state is the same, so the cloner was not invoked.
\<close>

theorem clone_result:
  assumes "clone_duplicates (get_cloner v s)"
  shows "(get v s = nullptr \<longrightarrow> clone v s = (Inr nullptr, s)) \<and>
         (\<forall>x q s'. get v s \<noteq> nullptr \<and> operator_star v s = Some x \<and> clone v s = (Inr q, s') \<longrightarrow>
            q \<noteq> get v s \<and> heap s' q = Some x \<and> objs s' = objs s \<and>
            get_cloner v s' = get_cloner v s \<and> get_deleter v s' = get_deleter v s \<and>
            get v s' = get v s \<and> operator_star v s' = Some x)"
proof -
  have nonempty: "q \<noteq> get v s \<and> heap s' q = Some x \<and> objs s' = objs s \<and>
      get_cloner v s' = get_cloner v s \<and> get_deleter v s' = get_deleter v s \<and>
      get v s' = get v s \<and> operator_star v s' = Some x"
    if ne: "get v s \<noteq> nullptr" and star: "operator_star v s = Some x"
      and cl: "clone v s = (Inr q, s')" for x q s'
  proof -
    obtain r h' where c: "get_cloner v s (get v s) (heap s) = (r, h')"
      by (cases "get_cloner v s (get v s) (heap s)")
    from clone_nonempty [OF ne c] cl
    have r: "r = Inr q"
      and s': "s' = s\<lparr>heap := h', trace := trace s @ [cloner_call (get v s)]\<rparr>"
      by simp_all
    from ne star have live: "heap s (get v s) = Some x"
      by (simp add: operator_star_def)
    from assms live c r have fresh: "heap s q = None" and h': "h' = (heap s)(q \<mapsto> x)"
      unfolding clone_duplicates_def by blast+
    from fresh live have "q \<noteq> get v s" by auto
    with s' h' ne live show ?thesis
      by (simp add: accessor_defs)
  qed
  from clone_empty nonempty show ?thesis by blast
qed

theorem clone_result_witness:
  "get 0 owner5 = 1 \<and> operator_star 0 owner5 = Some 5 \<and>
   fst (clone 0 owner5) = Inr 2 \<and> heap (snd (clone 0 owner5)) 2 = Some 5 \<and>
   operator_star 0 (snd (clone 0 owner5)) = Some 5 \<and> get 0 (snd (clone 0 owner5)) = 1 \<and>
   clone 1 owner5 = (Inr nullptr, owner5)"
proof -
  have c: "clone_duplicates (get_cloner v owner5)" for v
    by (simp add: get_cloner_def owner5_def store59_def value_ptr_ptr_def init_m_def
        int_policies_def slot_clone_duplicates)
  have f: "fst (clone 0 owner5) = Inr 2"
    by (simp add: clone_def invoke_cloner_def accessor_defs example_defs)
  then have e: "clone 0 owner5 = (Inr 2, snd (clone 0 owner5))"
    by (cases "clone 0 owner5") simp
  have g: "get 0 owner5 = 1"
    by (simp add: accessor_defs example_defs)
  then have n: "get 0 owner5 \<noteq> nullptr"
    by (simp add: nullptr_def)
  have o: "operator_star 0 owner5 = Some 5"
    by (simp add: accessor_defs example_defs)
  have m: "get 1 owner5 = nullptr"
    by (simp add: accessor_defs example_defs)
  from clone_result [OF c, of 0] n o e
  have "heap (snd (clone 0 owner5)) 2 = Some 5 \<and> operator_star 0 (snd (clone 0 owner5)) = Some 5
     \<and> get 0 (snd (clone 0 owner5)) = get 0 owner5"
    by blast
  moreover from clone_result [OF c, of 1] m have "clone 1 owner5 = (Inr nullptr, owner5)"
    by blast
  ultimately show ?thesis using f g o by simp
qed

section \<open>reset with the pointer already held\<close>

text \<open>
  C4. For every instance \<open>v\<close>, \<^verbatim>\<open>v.reset(v.get())\<close> changes nothing at all: the state
  after it is the state before it, so the deleter is not invoked (the log is the same),
  the owned object is not destroyed (the free store is the same), and the pointer, the
  cloner and the deleter of \<open>v\<close> (and of every other instance) are the same.
\<close>

theorem reset_same_pointer_noop:
  "reset v (get v s) s = s"
  by (simp add: reset_def)

theorem reset_same_pointer_noop_witness:
  "get 0 owner5 = 1 \<and> reset 0 1 owner5 = owner5"
proof -
  have g: "get 0 owner5 = 1"
    by (simp add: accessor_defs example_defs)
  with reset_same_pointer_noop [of 0 owner5] show ?thesis by simp
qed

section \<open>reset of an empty instance\<close>

text \<open>
  C10. For every empty instance \<open>v\<close> and every non-null pointer \<open>p\<close>,
  \<^verbatim>\<open>v.reset(p)\<close> is the invocation of the stored deleter on the null pointer followed
  by the adoption of \<open>p\<close>: the log grows by exactly that one invocation, the free store
  is what the deleter made of it when called on null, and \<open>v\<close> holds \<open>p\<close> afterwards.
\<close>

theorem reset_empty_calls_deleter_on_null:
  assumes "get v s = nullptr" and "p \<noteq> nullptr"
  shows "reset v p s = set_ptr v p (invoke_deleter (get_deleter v s) nullptr s) \<and>
         trace (reset v p s) = trace s @ [deleter_call nullptr] \<and>
         heap (reset v p s) = get_deleter v s nullptr (heap s) \<and>
         get v (reset v p s) = p"
  using assms by (simp add: reset_def invoke_deleter_def accessor_defs)

theorem reset_empty_calls_deleter_on_null_witness:
  "get 1 owner5 = nullptr \<and> (3::nat) \<noteq> nullptr \<and>
   trace (reset 1 3 owner5) = [deleter_call 0] \<and> get 1 (reset 1 3 owner5) = 3 \<and>
   heap (reset 1 3 owner5) 3 = Some 9"
proof -
  have e: "get 1 owner5 = nullptr" and p: "(3::nat) \<noteq> nullptr"
    by (simp_all add: accessor_defs example_defs)
  have d: "get_deleter 1 owner5 = default_delete" and t: "trace owner5 = []"
    and h: "heap owner5 3 = Some 9"
    by (simp_all add: accessor_defs example_defs)
  from reset_empty_calls_deleter_on_null [OF e p]
  have "trace (reset 1 3 owner5) = trace owner5 @ [deleter_call nullptr]"
    and "heap (reset 1 3 owner5) = get_deleter 1 owner5 nullptr (heap owner5)"
    and "get 1 (reset 1 3 owner5) = 3"
    by blast+
  with e p d t h show ?thesis
    by (simp add: default_delete_def nullptr_def)
qed

section \<open>release\<close>

text \<open>
  C6. For every instance \<open>v\<close>, \<^verbatim>\<open>v.release()\<close> returns the pointer \<open>v\<close> holds and
  leaves \<open>v\<close> empty, with the cloner and the deleter it had; the free store and the log
  are the same, so neither policy was invoked. The destructor of \<open>v\<close>, run after that,
  changes nothing: it invokes no deleter, on the released pointer or on any other.
\<close>

theorem release_then_destructor:
  "fst (release v s) = get v s \<and>
   get v (snd (release v s)) = nullptr \<and>
   get_cloner v (snd (release v s)) = get_cloner v s \<and>
   get_deleter v (snd (release v s)) = get_deleter v s \<and>
   heap (snd (release v s)) = heap s \<and>
   trace (snd (release v s)) = trace s \<and>
   destructor v (snd (release v s)) = snd (release v s)"
  by (simp add: release_def destructor_def reset_def accessor_defs Let_def)

theorem release_then_destructor_witness:
  "fst (release 0 owner5) = 1 \<and> get 0 (snd (release 0 owner5)) = 0 \<and>
   heap (snd (release 0 owner5)) 1 = Some 5 \<and>
   trace (destructor 0 (snd (release 0 owner5))) = []"
proof -
  have g: "get 0 owner5 = 1" and h: "heap owner5 1 = Some 5" and t: "trace owner5 = []"
    by (simp_all add: accessor_defs example_defs)
  with release_then_destructor [of 0 owner5] show ?thesis
    by (simp add: nullptr_def)
qed

section \<open>Empty instances\<close>

text \<open>
  C8. The default constructor and the constructor from \<^verbatim>\<open>nullptr\<close> build the same
  instance: \<^verbatim>\<open>get()\<close> is null, the policies are the default-constructed ones, the
  conversion to \<^verbatim>\<open>bool\<close> is false, \<^verbatim>\<open>clone()\<close> returns null and changes nothing, and
  the destructor changes nothing. For any instance in any state, the conversion to
  \<^verbatim>\<open>bool\<close> is true exactly when \<^verbatim>\<open>get()\<close> is not null.
\<close>

theorem empty_construction:
  "get v (value_ptr_default T v s) = nullptr \<and>
   get_cloner v (value_ptr_default T v s) = cloner_type T \<and>
   get_deleter v (value_ptr_default T v s) = deleter_type T \<and>
   operator_bool v (value_ptr_default T v s) = False \<and>
   clone v (value_ptr_default T v s) = (Inr nullptr, value_ptr_default T v s) \<and>
   destructor v (value_ptr_default T v s) = value_ptr_default T v s \<and>
   value_ptr_nullptr T v s = value_ptr_default T v s \<and>
   operator_bool r t = (get r t \<noteq> nullptr)"
  by (simp add: value_ptr_default_def value_ptr_nullptr_def init_m_def clone_def destructor_def
      reset_def accessor_defs)

theorem empty_construction_witness:
  "get 2 (value_ptr_default int_policies 2 owner5) = 0 \<and>
   \<not> operator_bool 2 (value_ptr_default int_policies 2 owner5) \<and>
   fst (clone 2 (value_ptr_default int_policies 2 owner5)) = Inr 0 \<and>
   trace (destructor 2 (value_ptr_default int_policies 2 owner5)) = [] \<and>
   operator_bool 0 owner5"
proof -
  have g: "get 0 owner5 = 1" and t: "trace owner5 = []"
    by (simp_all add: accessor_defs example_defs)
  have t': "trace (value_ptr_default int_policies 2 owner5) = []"
    using t by (simp add: value_ptr_default_def init_m_def)
  from empty_construction [of 2 int_policies owner5 0 owner5] g t' show ?thesis
    by (simp add: nullptr_def)
qed

section \<open>Move assignment to itself\<close>

text \<open>
  C9. For every instance \<open>v\<close> whose deleter accepts null, \<^verbatim>\<open>v = std::move(v)\<close>
  leaves \<open>v\<close> holding the pointer it held, the free store as it was (so the pointee
  has its value), and the log grown by nothing when \<open>v\<close> is empty and otherwise by one
  invocation of the deleter, on the null pointer: the owned object is never handed to
  the deleter.
\<close>

theorem self_move_assignment:
  assumes "deleter_accepts_null (get_deleter v s)"
  shows "get v (assign_move T v v s) = get v s \<and>
         heap (assign_move T v v s) = heap s \<and>
         operator_star v (assign_move T v v s) = operator_star v s \<and>
         trace (assign_move T v v s) =
           trace s @ (if get v s = nullptr then [] else [deleter_call nullptr])"
  using assms
  by (simp add: assign_move_def release_def reset_def move_deleter_def move_cloner_def
      invoke_deleter_def deleter_accepts_null_def accessor_defs Let_def)

theorem self_move_assignment_witness:
  "get 0 (assign_move int_policies 0 0 owner5) = 1 \<and>
   operator_star 0 (assign_move int_policies 0 0 owner5) = Some 5 \<and>
   trace (assign_move int_policies 0 0 owner5) = [deleter_call 0]"
proof -
  have d: "deleter_accepts_null (get_deleter 0 owner5)"
    by (simp add: get_deleter_def owner5_def store59_def value_ptr_ptr_def init_m_def
        int_policies_def default_delete_accepts_null)
  have g: "get 0 owner5 = 1" and o: "operator_star 0 owner5 = Some 5" and t: "trace owner5 = []"
    by (simp_all add: accessor_defs example_defs)
  from self_move_assignment [OF d, of int_policies] g o t show ?thesis
    by (simp add: nullptr_def)
qed

section \<open>A clone that throws\<close>

text \<open>
  C2. For every non-empty instance \<open>v\<close> whose cloner throws on the pointee of \<open>v\<close>
  (leaving the free store as it found it, as a cloner has to), \<^verbatim>\<open>v.clone()\<close>
  propagates the error and changes nothing but the log of the invocation; so does the
  copy construction of a new instance at \<open>w\<close> from \<open>v\<close>: the pointer, the cloner
  and the deleter of \<open>v\<close> and the value of its pointee are the same as before, the free
  store is the same, no deleter ran, and the members at \<open>w\<close> hold the null pointer:
  nothing is owned there.
\<close>

theorem failed_clone_leaves_source:
  assumes ne: "get v s \<noteq> nullptr"
    and thrown: "get_cloner v s (get v s) (heap s) = (Inl e, h')"
    and atomic: "clone_failure_atomic (get_cloner v s)"
    and distinct: "w \<noteq> v"
  shows "clone v s = (Inl e, s\<lparr>trace := trace s @ [cloner_call (get v s)]\<rparr>) \<and>
         value_ptr_copy T w v s =
           (Inl e, (init_m w nullptr (cloner_type T) (deleter_type T) s)
                     \<lparr>trace := trace s @ [cloner_call (get v s)]\<rparr>) \<and>
         get v (snd (value_ptr_copy T w v s)) = get v s \<and>
         get_cloner v (snd (value_ptr_copy T w v s)) = get_cloner v s \<and>
         get_deleter v (snd (value_ptr_copy T w v s)) = get_deleter v s \<and>
         operator_star v (snd (value_ptr_copy T w v s)) = operator_star v s \<and>
         heap (snd (value_ptr_copy T w v s)) = heap s \<and>
         get w (snd (value_ptr_copy T w v s)) = nullptr"
proof -
  from atomic thrown have h': "h' = heap s"
    unfolding clone_failure_atomic_def by blast
  from clone_nonempty [OF ne thrown] h'
  have c: "clone v s = (Inl e, s\<lparr>trace := trace s @ [cloner_call (get v s)]\<rparr>)"
    by simp
  let ?s0 = "init_m w nullptr (cloner_type T) (deleter_type T) s"
  from distinct have same: "get v ?s0 = get v s" "get_cloner v ?s0 = get_cloner v s"
    "heap ?s0 = heap s" "trace ?s0 = trace s"
    by (simp_all add: init_m_def accessor_defs)
  from ne thrown h' same have "get v ?s0 \<noteq> nullptr"
    and "get_cloner v ?s0 (get v ?s0) (heap ?s0) = (Inl e, heap ?s0)"
    by simp_all
  from clone_nonempty [OF this] same
  have "clone v ?s0 = (Inl e, ?s0\<lparr>trace := trace s @ [cloner_call (get v s)]\<rparr>)"
    by simp
  then have k: "value_ptr_copy T w v s =
      (Inl e, ?s0\<lparr>trace := trace s @ [cloner_call (get v s)]\<rparr>)"
    by (simp add: value_ptr_copy_def)
  from distinct show ?thesis
    unfolding k c by (simp add: init_m_def accessor_defs)
qed

theorem failed_clone_leaves_source_witness:
  "get 0 owner5_full = 1 \<and> operator_star 0 owner5_full = Some 5 \<and>
   fst (clone 0 owner5_full) = Inl (Thrown ''bad_alloc'') \<and>
   trace (snd (clone 0 owner5_full)) = [cloner_call 1] \<and>
   fst (value_ptr_copy int_policies 1 0 owner5_full) = Inl (Thrown ''bad_alloc'') \<and>
   get 0 (snd (value_ptr_copy int_policies 1 0 owner5_full)) = 1 \<and>
   operator_star 0 (snd (value_ptr_copy int_policies 1 0 owner5_full)) = Some 5 \<and>
   get 1 (snd (value_ptr_copy int_policies 1 0 owner5_full)) = 0 \<and>
   trace (snd (value_ptr_copy int_policies 1 0 owner5_full)) = [cloner_call 1]"
proof -
  have g: "get 0 owner5_full = 1" and o: "operator_star 0 owner5_full = Some 5"
    and t: "trace owner5_full = []"
    by (simp_all add: accessor_defs example_defs)
  from g have ne: "get 0 owner5_full \<noteq> nullptr"
    by (simp add: nullptr_def)
  have c: "get_cloner 0 owner5_full = slot_clone 1"
    by (simp add: accessor_defs example_defs)
  have thrown: "get_cloner 0 owner5_full (get 0 owner5_full) (heap owner5_full) =
      (Inl (Thrown ''bad_alloc''), heap owner5_full)"
    unfolding c g by (simp add: example_defs)
  have atomic: "clone_failure_atomic (get_cloner 0 owner5_full)"
    unfolding c by (rule slot_clone_failure_atomic)
  have distinct: "(1::nat) \<noteq> 0"
    by simp
  note r = failed_clone_leaves_source [OF ne thrown atomic distinct, of int_policies]
  from r have "fst (clone 0 owner5_full) = Inl (Thrown ''bad_alloc'')"
    and "trace (snd (clone 0 owner5_full)) = trace owner5_full @ [cloner_call (get 0 owner5_full)]"
    and "fst (value_ptr_copy int_policies 1 0 owner5_full) = Inl (Thrown ''bad_alloc'')"
    and "trace (snd (value_ptr_copy int_policies 1 0 owner5_full)) =
           trace owner5_full @ [cloner_call (get 0 owner5_full)]"
    by (simp_all add: init_m_def)
  moreover from r have "get 0 (snd (value_ptr_copy int_policies 1 0 owner5_full)) = get 0 owner5_full"
    and "operator_star 0 (snd (value_ptr_copy int_policies 1 0 owner5_full)) =
           operator_star 0 owner5_full"
    and "get 1 (snd (value_ptr_copy int_policies 1 0 owner5_full)) = nullptr"
    by blast+
  ultimately show ?thesis
    using g o t by (simp add: nullptr_def)
qed

section \<open>Copy assignment\<close>

text \<open>
  C3. In the copy assignment \<^verbatim>\<open>w = v\<close> (where \<open>w\<close> may be \<open>v\<close> itself) the clone
  of the pointee of \<open>v\<close> comes first. If it throws (the cloner leaving the free store
  as it found it), the assignment propagates the error in the state the clone left:
  no instance changed, so \<open>w\<close> still owns its pointer, the free store is the same, and
  the log has the cloner's invocation and no deleter's. If it returns \<open>p\<close>, the
  assignment succeeds: \<open>w\<close> holds \<open>p\<close> and the cloner and the deleter of \<open>v\<close>, and
  when \<open>p\<close> differs from the pointer \<open>w\<close> held, the deleter \<open>w\<close> had was run on
  that pointer, on the free store the clone left and after the clone in the log.
\<close>

theorem copy_assignment_clone_then_commit:
  assumes atomic: "clone_failure_atomic (get_cloner v s)"
  shows "(\<forall>e s1. clone v s = (Inl e, s1) \<longrightarrow>
            assign_copy w v s = (Inl e, s1) \<and> objs s1 = objs s \<and> heap s1 = heap s \<and>
            trace s1 = trace s @ [cloner_call (get v s)]) \<and>
         (\<forall>p s1. clone v s = (Inr p, s1) \<longrightarrow>
            fst (assign_copy w v s) = Inr () \<and>
            get w (snd (assign_copy w v s)) = p \<and>
            get_cloner w (snd (assign_copy w v s)) = get_cloner v s \<and>
            get_deleter w (snd (assign_copy w v s)) = get_deleter v s \<and>
            heap (snd (assign_copy w v s)) =
              (if p = get w s then heap s1 else get_deleter w s (get w s) (heap s1)) \<and>
            trace (snd (assign_copy w v s)) =
              trace s @ (if get v s = nullptr then [] else [cloner_call (get v s)])
                      @ (if p = get w s then [] else [deleter_call (get w s)]))"
proof -
  have failure: "assign_copy w v s = (Inl e, s1) \<and> objs s1 = objs s \<and> heap s1 = heap s \<and>
      trace s1 = trace s @ [cloner_call (get v s)]"
    if c: "clone v s = (Inl e, s1)" for e s1
    using clone_frame [OF c] clone_failure_frame [OF c atomic] c
    by (simp add: assign_copy_def)
  have success: "fst (assign_copy w v s) = Inr () \<and>
      get w (snd (assign_copy w v s)) = p \<and>
      get_cloner w (snd (assign_copy w v s)) = get_cloner v s \<and>
      get_deleter w (snd (assign_copy w v s)) = get_deleter v s \<and>
      heap (snd (assign_copy w v s)) =
        (if p = get w s then heap s1 else get_deleter w s (get w s) (heap s1)) \<and>
      trace (snd (assign_copy w v s)) =
        trace s @ (if get v s = nullptr then [] else [cloner_call (get v s)])
                @ (if p = get w s then [] else [deleter_call (get w s)])"
    if c: "clone v s = (Inr p, s1)" for p s1
    using clone_frame [OF c] c
    by (simp add: assign_copy_def reset_def invoke_deleter_def accessor_defs Let_def)
  from failure success show ?thesis by blast
qed

theorem copy_assignment_clone_then_commit_witness:
  "fst (clone 0 two_owners) = Inr 2 \<and>
   get 1 two_owners = 3 \<and>
   get 1 (snd (assign_copy 1 0 two_owners)) = 2 \<and>
   trace (snd (assign_copy 1 0 two_owners)) = [cloner_call 1, deleter_call 3] \<and>
   fst (clone 0 two_owners_full) = Inl (Thrown ''bad_alloc'') \<and>
   fst (assign_copy 1 0 two_owners_full) = Inl (Thrown ''bad_alloc'') \<and>
   get 1 (snd (assign_copy 1 0 two_owners_full)) = 3 \<and>
   heap (snd (assign_copy 1 0 two_owners_full)) 3 = Some 9 \<and>
   trace (snd (assign_copy 1 0 two_owners_full)) = [cloner_call 1]"
proof -
  have a: "clone_failure_atomic (get_cloner 0 two_owners)"
    by (simp add: get_cloner_def two_owners_def owner5_def store59_def value_ptr_ptr_def
        init_m_def int_policies_def slot_clone_failure_atomic)
  have f: "fst (clone 0 two_owners) = Inr 2"
    by (simp add: clone_def invoke_cloner_def accessor_defs example_defs)
  then have e: "clone 0 two_owners = (Inr 2, snd (clone 0 two_owners))"
    by (cases "clone 0 two_owners") simp
  have g: "get 0 two_owners = 1" "get 1 two_owners = 3" "trace two_owners = []"
    by (simp_all add: accessor_defs example_defs)
  from copy_assignment_clone_then_commit [OF a, of 1] e
  have "get 1 (snd (assign_copy 1 0 two_owners)) = 2"
    and "trace (snd (assign_copy 1 0 two_owners)) =
      trace two_owners @ (if get 0 two_owners = nullptr then [] else [cloner_call (get 0 two_owners)])
        @ (if 2 = get 1 two_owners then [] else [deleter_call (get 1 two_owners)])"
    by blast+
  with g have ok: "get 1 (snd (assign_copy 1 0 two_owners)) = 2 \<and>
      trace (snd (assign_copy 1 0 two_owners)) = [cloner_call 1, deleter_call 3]"
    by (simp add: nullptr_def)
  have a': "clone_failure_atomic (get_cloner 0 two_owners_full)"
    by (simp add: get_cloner_def two_owners_full_def owner5_full_def store59_def
        value_ptr_ptr_def value_ptr_ptr_cloner_def init_m_def slot_clone_failure_atomic)
  have f': "fst (clone 0 two_owners_full) = Inl (Thrown ''bad_alloc'')"
    by (simp add: clone_def invoke_cloner_def accessor_defs example_defs)
  then have e': "clone 0 two_owners_full =
      (Inl (Thrown ''bad_alloc''), snd (clone 0 two_owners_full))"
    by (cases "clone 0 two_owners_full") simp
  have g': "get 0 two_owners_full = 1" "get 1 two_owners_full = 3" "trace two_owners_full = []"
    "heap two_owners_full 3 = Some 9"
    by (simp_all add: accessor_defs example_defs)
  from copy_assignment_clone_then_commit [OF a', of 1] e'
  have "assign_copy 1 0 two_owners_full =
      (Inl (Thrown ''bad_alloc''), snd (clone 0 two_owners_full))"
    and "objs (snd (clone 0 two_owners_full)) = objs two_owners_full"
    and "heap (snd (clone 0 two_owners_full)) = heap two_owners_full"
    and "trace (snd (clone 0 two_owners_full)) =
      trace two_owners_full @ [cloner_call (get 0 two_owners_full)]"
    by blast+
  with g' have bad: "fst (assign_copy 1 0 two_owners_full) = Inl (Thrown ''bad_alloc'') \<and>
      get 1 (snd (assign_copy 1 0 two_owners_full)) = 3 \<and>
      heap (snd (assign_copy 1 0 two_owners_full)) 3 = Some 9 \<and>
      trace (snd (assign_copy 1 0 two_owners_full)) = [cloner_call 1]"
    by (simp add: get_def)
  from f f' g(2) ok bad show ?thesis by simp
qed

section \<open>Copies share nothing\<close>

lemma copy_constructor_result:
  assumes distinct: "w \<noteq> v"
    and dup: "clone_duplicates (get_cloner v s)"
    and null_ok: "deleter_accepts_null (deleter_type T)"
    and live: "get v s \<noteq> nullptr \<longrightarrow> heap s (get v s) \<noteq> None"
    and copy: "value_ptr_copy T w v s = (Inr u, s1)"
  shows "objs s1 v = objs s v \<and> get_deleter w s1 = get_deleter v s \<and>
         get_cloner w s1 = get_cloner v s \<and>
         (if get v s = nullptr then get w s1 = nullptr \<and> heap s1 = heap s
          else get w s1 \<noteq> nullptr \<and> heap s (get w s1) = None \<and>
               heap s1 = (heap s)(get w s1 := heap s (get v s)))"
proof (cases "get v s = nullptr")
  case True
  with distinct copy show ?thesis
    by (auto simp: value_ptr_copy_def op_defs accessor_defs Let_def)
next
  case False
  with live obtain x where x: "heap s (get v s) = Some x" by auto
  let ?s0 = "init_m w nullptr (cloner_type T) (deleter_type T) s"
  obtain r h' where c: "get_cloner v s (get v s) (heap s) = (r, h')"
    by (cases "get_cloner v s (get v s) (heap s)")
  from distinct have same: "get v ?s0 = get v s" "get_cloner v ?s0 = get_cloner v s"
    "heap ?s0 = heap s"
    by (simp_all add: init_m_def accessor_defs)
  from False c same have "get v ?s0 \<noteq> nullptr"
    and "get_cloner v ?s0 (get v ?s0) (heap ?s0) = (r, h')"
    by simp_all
  from clone_nonempty [OF this] same
  have cl: "clone v ?s0 = (r, ?s0\<lparr>heap := h', trace := trace ?s0 @ [cloner_call (get v s)]\<rparr>)"
    by simp
  from copy cl obtain q where r: "r = Inr q"
    by (cases r) (simp_all add: value_ptr_copy_def)
  from dup x c r have q: "q \<noteq> nullptr" "heap s q = None" "h' = (heap s)(q \<mapsto> x)"
    unfolding clone_duplicates_def by blast+
  from null_ok have n: "deleter_type T nullptr h = h" for h
    by (simp add: deleter_accepts_null_def)
  from copy cl r q n distinct
  have "s1 = (set_cloner w (get_cloner v s) (set_deleter w (get_deleter v s)
          (set_ptr w q (invoke_deleter (deleter_type T) nullptr
             (?s0\<lparr>heap := h', trace := trace ?s0 @ [cloner_call (get v s)]\<rparr>)))))"
    by (auto simp: value_ptr_copy_def reset_def init_m_def invoke_deleter_def accessor_defs Let_def)
  with False q x n distinct show ?thesis
    by (simp add: init_m_def invoke_deleter_def accessor_defs)
qed

text \<open>
  C7. Let \<open>v\<close> own a live pointee or nothing, let its cloner duplicate and its deleter
  free only what it is given, and let the default-constructed deleter accept null. When
  the copy construction of a new instance at \<open>w\<close> from \<open>v\<close> succeeds, then destroying
  \<open>w\<close> leaves \<open>v\<close> (its pointer, cloner and deleter) and the value of its pointee as
  they were before the copy; and the pointee of \<open>w\<close> has the value the pointee of \<open>v\<close>
  had at the copy, also after any assignment \<^verbatim>\<open>*v = y\<close> made after the copy.
\<close>

theorem copy_is_deep:
  assumes distinct: "w \<noteq> v"
    and dup: "clone_duplicates (get_cloner v s)"
    and frees: "deleter_frees_only (get_deleter v s)"
    and null_ok: "deleter_accepts_null (deleter_type T)"
    and live: "get v s \<noteq> nullptr \<longrightarrow> heap s (get v s) \<noteq> None"
    and copy: "value_ptr_copy T w v s = (Inr u, s1)"
  shows "objs (destructor w s1) v = objs s v \<and>
         operator_star v (destructor w s1) = operator_star v s \<and>
         operator_star w s1 = operator_star v s \<and>
         (\<forall>y s2. store_pointee v y s1 = Some s2 \<longrightarrow>
            operator_star v s2 = Some y \<and> operator_star w s2 = operator_star v s)"
proof -
  note r = copy_constructor_result [OF distinct dup null_ok live copy]
  from frees have f: "r \<noteq> p \<Longrightarrow> get_deleter v s p h r = h r" for p h r
    by (simp add: deleter_frees_only_def)
  show ?thesis
  proof (cases "get v s = nullptr")
    case True
    with r distinct show ?thesis
      by (auto simp: destructor_def reset_def store_pointee_def accessor_defs)
  next
    case False
    with r have q: "get w s1 \<noteq> nullptr" "heap s (get w s1) = None"
      and h1: "heap s1 = (heap s)(get w s1 := heap s (get v s))"
      and v1: "objs s1 v = objs s v" and d1: "get_deleter w s1 = get_deleter v s"
      by simp_all
    from False live q have pq: "get v s \<noteq> get w s1" by auto
    have a: "objs (destructor w s1) v = objs s v"
      using distinct v1 by (simp add: destructor_def reset_def invoke_deleter_def accessor_defs)
    have b: "operator_star v (destructor w s1) = operator_star v s"
      using distinct v1 d1 h1 pq q False f [of "get v s" "get w s1" "heap s1"]
      by (simp add: destructor_def reset_def invoke_deleter_def accessor_defs)
    have c: "operator_star w s1 = operator_star v s"
      using q h1 False by (simp add: operator_star_def)
    have d: "operator_star v s2 = Some y \<and> operator_star w s2 = operator_star v s"
      if "store_pointee v y s1 = Some s2" for y s2
      using that distinct v1 h1 pq q False
      by (auto simp: store_pointee_def accessor_defs split: if_splits)
    from a b c d show ?thesis by blast
  qed
qed

theorem copy_is_deep_witness:
  "fst (value_ptr_copy int_policies 1 0 owner5) = Inr () \<and>
   get 1 (snd (value_ptr_copy int_policies 1 0 owner5)) = 2 \<and>
   store_pointee 0 7 (snd (value_ptr_copy int_policies 1 0 owner5)) \<noteq> None \<and>
   operator_star 1 (snd (value_ptr_copy int_policies 1 0 owner5)) = Some 5 \<and>
   get 0 (destructor 1 (snd (value_ptr_copy int_policies 1 0 owner5))) = 1 \<and>
   operator_star 0 (destructor 1 (snd (value_ptr_copy int_policies 1 0 owner5))) = Some 5 \<and>
   operator_star 0
     (the (store_pointee 0 7 (snd (value_ptr_copy int_policies 1 0 owner5)))) = Some 7 \<and>
   operator_star 1
     (the (store_pointee 0 7 (snd (value_ptr_copy int_policies 1 0 owner5)))) = Some 5"
proof -
  let ?s1 = "snd (value_ptr_copy int_policies 1 0 owner5)"
  have distinct: "(1::nat) \<noteq> 0"
    by simp
  have dup: "clone_duplicates (get_cloner 0 owner5)"
    by (simp add: get_cloner_def owner5_def store59_def value_ptr_ptr_def init_m_def
        int_policies_def slot_clone_duplicates)
  have frees: "deleter_frees_only (get_deleter 0 owner5)"
    by (simp add: get_deleter_def owner5_def store59_def value_ptr_ptr_def init_m_def
        int_policies_def default_delete_frees_only)
  have null_ok: "deleter_accepts_null (deleter_type int_policies)"
    by (simp add: int_policies_def default_delete_accepts_null)
  have g: "get 0 owner5 = 1" and o: "operator_star 0 owner5 = Some 5"
    and h: "heap owner5 1 = Some 5"
    by (simp_all add: accessor_defs example_defs)
  from h g have live: "get 0 owner5 \<noteq> nullptr \<longrightarrow> heap owner5 (get 0 owner5) \<noteq> None"
    by simp
  have f: "fst (value_ptr_copy int_policies 1 0 owner5) = Inr ()"
    and p: "get 1 ?s1 = 2" and p0: "get 0 ?s1 = 1" and h1: "heap ?s1 1 = Some 5"
    by (simp_all add: value_ptr_copy_def op_defs accessor_defs example_defs Let_def)
  from f have copy: "value_ptr_copy int_policies 1 0 owner5 = (Inr (), ?s1)"
    by (cases "value_ptr_copy int_policies 1 0 owner5") simp
  from p0 h1 have st: "store_pointee 0 7 ?s1 = Some (the (store_pointee 0 7 ?s1))"
    by (simp add: store_pointee_def nullptr_def)
  note r = copy_is_deep [OF distinct dup frees null_ok live copy]
  from r have "objs (destructor 1 ?s1) 0 = objs owner5 0"
    and "operator_star 0 (destructor 1 ?s1) = operator_star 0 owner5"
    and "operator_star 1 ?s1 = operator_star 0 owner5"
    by blast+
  moreover from r st have "operator_star 0 (the (store_pointee 0 7 ?s1)) = Some 7"
    and "operator_star 1 (the (store_pointee 0 7 ?s1)) = operator_star 0 owner5"
    by blast+
  moreover from st have "store_pointee 0 7 ?s1 \<noteq> None"
    by (cases "store_pointee 0 7 ?s1") simp_all
  ultimately show ?thesis
    using f p g o by (simp add: get_def)
qed

section \<open>Move assignment\<close>




end
